theory Spec2Isabelle
  imports Main "HOL-Library.AList"
begin

section \<open>Python values used by the REST client\<close>

text \<open>
  Exceptions are values. \<open>APICallException\<close> carries the three attributes its
  constructor in \<^verbatim>\<open>restapi/exc.py\<close> stores: \<open>status_code\<close>, \<open>response_text\<close> and
  the single positional argument handed to \<open>Exception.__init__\<close>. \<open>OtherError\<close>
  stands for whatever an abstract method or a collaborator raises. A Python
  string is a list of characters; the operations below only compare single
  characters with ASCII separators.
\<close>

datatype exn =
    IndexError
  | KeyError string
  | ValueError string
  | AssertionError string
  | APICallException "int option" "string option" "string option"
  | OtherError string

fun exc_status_code :: "exn \<Rightarrow> int option" where
  "exc_status_code (APICallException c t m) = c"
| "exc_status_code _ = None"

fun exc_response_text :: "exn \<Rightarrow> string option" where
  "exc_response_text (APICallException c t m) = t"
| "exc_response_text _ = None"

text \<open>Python's \<open>a or b\<close> on optional strings: \<open>None\<close> and the empty string are falsy.\<close>

definition truthy :: "string option \<Rightarrow> bool" where
  "truthy a = (case a of None \<Rightarrow> False | Some s \<Rightarrow> s \<noteq> [])"

definition py_or :: "string option \<Rightarrow> string option \<Rightarrow> string option" where
  "py_or a b = (if truthy a then a else b)"

text \<open>\<open>APICallException.__init__\<close>: the message defaults to the response text.\<close>

definition new_APICallException :: "int option \<Rightarrow> string option \<Rightarrow> string option \<Rightarrow> exn" where
  "new_APICallException status_code response_text message =
     APICallException status_code response_text (py_or message response_text)"

text \<open>\<open>str.lstrip("/")\<close>, and \<open>str.rpartition\<close> for a one-character separator.\<close>

definition lstrip :: "char \<Rightarrow> string \<Rightarrow> string" where
  "lstrip c s = dropWhile (\<lambda>x. x = c) s"

definition rpartition :: "char \<Rightarrow> string \<Rightarrow> string \<times> string \<times> string" where
  "rpartition c s =
     (if c \<in> set s
      then (rev (tl (dropWhile (\<lambda>x. x \<noteq> c) (rev s))), [c], rev (takeWhile (\<lambda>x. x \<noteq> c) (rev s)))
      else ([], [], s))"

section \<open>Response classification\<close>

record response =
  status_code :: int
  resp_text :: string  \<comment> \<open>the attribute \<open>response.text\<close>\<close>

definition HTTP_STATUS_CODES_SUCCESS :: "int set" where
  "HTTP_STATUS_CODES_SUCCESS = {200, 201, 202, 203, 204, 205, 206, 207}"

text \<open>The default \<open>render_response_error\<close> of the abstract client.\<close>

definition render_response_error :: "string \<Rightarrow> string" where
  "render_response_error t = t"

text \<open>
  \<open>process_response\<close>. The abstract \<open>convert_response_text\<close> and the overridable
  \<open>render_response_error\<close> are parameters; the conversion may raise. The second
  component of the returned pair is a Python object, which may be \<open>None\<close>.
\<close>

definition process_response ::
  "(string \<Rightarrow> exn + 'v option) \<Rightarrow> (string \<Rightarrow> string) \<Rightarrow> response \<Rightarrow> bool
     \<Rightarrow> exn + (bool \<times> 'v option)" where
  "process_response convert_response_text render resp errors_ok =
     (if status_code resp \<in> HTTP_STATUS_CODES_SUCCESS then
        (case convert_response_text (resp_text resp) of
           Inl e \<Rightarrow> Inl e
         | Inr v \<Rightarrow> Inr (True, v))
      else if errors_ok then Inr (False, None)
      else Inl (new_APICallException (Some (status_code resp)) (Some (resp_text resp))
                  (Some (render (resp_text resp)))))"

section \<open>URL resolver\<close>

text \<open>
  The class attribute \<open>DEFAULT_API_PORT\<close> is \<open>None\<close> in the abstract client; a
  subclass declares an integer or a string. \<open>"{}:{}".format(arg, port)\<close> renders
  either one.
\<close>

datatype port = PortInt int | PortStr string

definition digit_char :: "nat \<Rightarrow> char" where
  "digit_char d = ''0123456789'' ! (d mod 10)"

fun str_nat :: "nat \<Rightarrow> string" where
  "str_nat n = (if n < 10 then [digit_char n] else str_nat (n div 10) @ [digit_char (n mod 10)])"

definition str_int :: "int \<Rightarrow> string" where
  "str_int i = (if i < 0 then CHR ''-'' # str_nat (nat (- i)) else str_nat (nat i))"

fun format_port :: "port \<Rightarrow> string" where
  "format_port (PortInt i) = str_int i"
| "format_port (PortStr s) = s"

fun port_truthy :: "port option \<Rightarrow> bool" where
  "port_truthy None = False"
| "port_truthy (Some (PortInt i)) = (i \<noteq> 0)"
| "port_truthy (Some (PortStr s)) = (s \<noteq> [])"

record api_cls =
  DEFAULT_API_PROTOCOL :: string
  DEFAULT_API_PORT :: "port option"
  DEFAULT_API_BASEPATH :: "string option"

definition AbstractAPIClient_cls :: api_cls where
  "AbstractAPIClient_cls =
     \<lparr>DEFAULT_API_PROTOCOL = ''https'', DEFAULT_API_PORT = None, DEFAULT_API_BASEPATH = None\<rparr>"

text \<open>
  The local function \<open>append_default_port\<close> of \<open>parse_api_host_arg\<close>: the identity
  when the class declares no (truthy) default port. \<open>arg[0]\<close> and \<open>parts[0][-1]\<close>
  raise \<open>IndexError\<close> on an empty string.
\<close>

definition append_default_port :: "port option \<Rightarrow> string \<Rightarrow> exn + string" where
  "append_default_port default_port arg =
     (case default_port of
        None \<Rightarrow> Inr arg
      | Some port \<Rightarrow>
          if \<not> port_truthy default_port then Inr arg
          else
            (let parts = rpartition CHR '':'' arg in
             case arg of
               [] \<Rightarrow> Inl IndexError
             | c # _ \<Rightarrow>
                 if c = CHR ''['' then
                   (case fst parts of
                      [] \<Rightarrow> Inl IndexError
                    | _ # _ \<Rightarrow>
                        if last (fst parts) = CHR '']''
                        then Inr (arg @ '':'' @ format_port port)
                        else Inr arg)
                 else if fst (snd parts) \<noteq> [] then Inr arg
                 else Inr (arg @ '':'' @ format_port port)))"

text \<open>
  \<open>urllib.parse.urlparse\<close> belongs to the Python standard library. The resolver
  reads two attributes of its result, so the parser is a parameter of
  \<open>parse_api_host_arg\<close>.
\<close>

record url_parts =
  scheme :: string
  netloc :: string

definition parse_api_host_arg ::
  "(string \<Rightarrow> exn + url_parts) \<Rightarrow> api_cls \<Rightarrow> string \<Rightarrow> string option \<Rightarrow> exn + (string \<times> string)" where
  "parse_api_host_arg urlparse cls host real_host =
     (case urlparse host of
        Inl e \<Rightarrow> Inl e
      | Inr parts \<Rightarrow>
          (case
             (if scheme parts \<noteq> [] \<and> netloc parts \<noteq> []
              then Inr (host, snd (snd (rpartition CHR ''@'' (netloc parts))))
              else
                (case append_default_port (DEFAULT_API_PORT cls) host of
                   Inl e \<Rightarrow> Inl e
                 | Inr parsed_host \<Rightarrow>
                     Inr (DEFAULT_API_PROTOCOL cls @ ''://'' @ parsed_host @ ''/''
                            @ lstrip CHR ''/''
                                (case py_or (DEFAULT_API_BASEPATH cls) (Some []) of
                                   None \<Rightarrow> [] | Some b \<Rightarrow> b),
                          parsed_host)))
           of
             Inl e \<Rightarrow> Inl e
           | Inr (parsed_base_url, parsed_host) \<Rightarrow>
               (case real_host of
                  None \<Rightarrow> Inr (parsed_base_url, parsed_host)
                | Some rh \<Rightarrow>
                    if rh = [] then Inr (parsed_base_url, parsed_host)
                    else
                      (case append_default_port (DEFAULT_API_PORT cls) rh of
                         Inl e \<Rightarrow> Inl e
                       | Inr parsed_real_host \<Rightarrow> Inr (parsed_base_url, parsed_real_host)))))"

text \<open>
  The scheme and authority split of CPython's \<open>urlsplit\<close>, for evaluating the
  resolver on concrete hosts: leading control characters and spaces are dropped,
  tab and newline characters removed, a scheme is an ASCII letter followed by
  scheme characters up to the first colon, and the authority follows \<open>//\<close> up to
  the first of \<open>/ ? #\<close>. The validation of a bracketed IP literal inside the
  authority is left out beyond the check that the brackets are paired.
\<close>

definition ascii_lower :: string where
  "ascii_lower = ''abcdefghijklmnopqrstuvwxyz''"

definition ascii_upper :: string where
  "ascii_upper = ''ABCDEFGHIJKLMNOPQRSTUVWXYZ''"

definition scheme_chars :: string where
  "scheme_chars = ascii_lower @ ascii_upper @ ''0123456789+-.''"

definition to_lower :: "char \<Rightarrow> char" where
  "to_lower c = (case map_of (zip ascii_upper ascii_lower) c of None \<Rightarrow> c | Some l \<Rightarrow> l)"

definition urlparse :: "string \<Rightarrow> exn + url_parts" where
  "urlparse url0 =
     (let url1 = dropWhile (\<lambda>c. (of_char c :: nat) \<le> 32) url0;
          url2 = filter (\<lambda>c. \<not> List.member [CHR 0x09, CHR 0x0A, CHR 0x0D] c) url1;
          pre = takeWhile (\<lambda>c. c \<noteq> CHR '':'') url2;
          is_scheme = (List.member url2 CHR '':'' \<and> pre \<noteq> []
                       \<and> List.member (ascii_lower @ ascii_upper) (hd pre)
                       \<and> list_all (List.member scheme_chars) pre);
          sch = (if is_scheme then map to_lower pre else []);
          url3 = (if is_scheme then drop (Suc (length pre)) url2 else url2)
      in if take 2 url3 = ''//''
         then
           (let nl = takeWhile (\<lambda>c. \<not> List.member ''/?#'' c) (drop 2 url3) in
            if List.member nl CHR ''['' \<noteq> List.member nl CHR '']''
            then Inl (ValueError ''Invalid IPv6 URL'')
            else Inr \<lparr>scheme = sch, netloc = nl\<rparr>)
         else Inr \<lparr>scheme = sch, netloc = []\<rparr>)"

section \<open>The abstract client\<close>

datatype verify_cert = VerifyBool bool | VerifyPath string

text \<open>
  The attributes of \<open>AbstractAPIClient\<close>. The \<open>headers\<close> dict keeps insertion
  order, so it is an association list: assignment replaces the value of a key in
  place or appends a new entry, \<open>del\<close> removes the entry of a key.
\<close>

record abstract_client =
  base_url :: string
  real_host :: string
  verify_cert :: verify_cert
  headers :: "(string \<times> string) list"

text \<open>
  A method takes the object and returns its outcome with the object as the method
  left it; a raised exception does not undo the assignments made before it.
\<close>

type_synonym ('s, 'a) meth = "'s \<Rightarrow> (exn + 'a) \<times> 's"

definition AbstractAPIClient_init ::
  "(string \<Rightarrow> exn + url_parts) \<Rightarrow> api_cls \<Rightarrow> string \<Rightarrow> string option \<Rightarrow> verify_cert
     \<Rightarrow> exn + abstract_client" where
  "AbstractAPIClient_init parser cls host real_host_arg verify_cert_arg =
     (case parse_api_host_arg parser cls host real_host_arg of
        Inl e \<Rightarrow> Inl e
      | Inr (parsed_base_url, parsed_real_host) \<Rightarrow>
          Inr \<lparr>base_url = parsed_base_url, real_host = parsed_real_host,
               verify_cert = verify_cert_arg, headers = []\<rparr>)"

definition join_url :: "string option \<Rightarrow> ('a abstract_client_scheme, string) meth" where
  "join_url endpoint self =
     (if truthy endpoint
      then (Inr (base_url self @ ''/'' @ lstrip CHR ''/'' (case endpoint of None \<Rightarrow> [] | Some e \<Rightarrow> e)),
            self)
      else (Inr (base_url self), self))"

definition add_header :: "string \<Rightarrow> string \<Rightarrow> ('a abstract_client_scheme, unit) meth" where
  "add_header name v self = (Inr (), self\<lparr>headers := AList.update name v (headers self)\<rparr>)"

definition unset_header :: "string \<Rightarrow> bool \<Rightarrow> ('a abstract_client_scheme, unit) meth" where
  "unset_header name ignore_missing self =
     (if name \<in> fst ` set (headers self)
      then (Inr (), self\<lparr>headers := AList.delete name (headers self)\<rparr>)
      else if \<not> ignore_missing then (Inl (KeyError name), self)
      else (Inr (), self))"

text \<open>
  \<open>__enter__\<close> and \<open>__exit__\<close>, over the abstract methods. An exception raised by
  \<open>close_connection\<close> inside the \<open>except\<close> or \<open>finally\<close> block replaces the
  pending one.
\<close>

definition enter ::
  "('s, unit) meth \<Rightarrow> ('s, unit) meth \<Rightarrow> ('s, unit) meth \<Rightarrow> ('s, unit) meth" where
  "enter open_connection login close_connection self =
     (case open_connection self of
        (Inl e, s1) \<Rightarrow> (Inl e, s1)
      | (Inr _, s1) \<Rightarrow>
          (case login s1 of
             (Inl e, s2) \<Rightarrow>
               (case close_connection s2 of
                  (Inl e', s3) \<Rightarrow> (Inl e', s3)
                | (Inr _, s3) \<Rightarrow> (Inl e, s3))
           | (Inr _, s2) \<Rightarrow> (Inr (), s2)))"

definition exit ::
  "('s, unit) meth \<Rightarrow> ('s, unit) meth \<Rightarrow> ('s, unit) meth" where
  "exit logout close_connection self =
     (case logout self of
        (r, s1) \<Rightarrow>
          (case close_connection s1 of
             (Inl e', s2) \<Rightarrow> (Inl e', s2)
           | (Inr _, s2) \<Rightarrow> (r, s2)))"

section \<open>The session-backed client\<close>

text \<open>
  A \<open>requests.Session\<close> object: what the library keeps in it (\<open>verify\<close>, the header
  dict, the adapters) is the library's, of type \<open>'h\<close>; \<open>closed\<close> records that
  \<open>close()\<close> was called on it. The statements of \<open>open_connection\<close> that touch the
  object are the library's operations, each returning the object as it left it
  and the exception it raised, if any.
\<close>

record 'h session =
  attrs :: 'h
  closed :: bool

record 'h requests =
  Session :: 'h
  session_set_verify :: "verify_cert \<Rightarrow> 'h \<Rightarrow> exn option \<times> 'h"
  session_headers_setitem :: "string \<Rightarrow> string \<Rightarrow> 'h \<Rightarrow> exn option \<times> 'h"
  session_headers_update :: "(string \<times> string) list \<Rightarrow> 'h \<Rightarrow> exn option \<times> 'h"

datatype accept = AcceptTrue | AcceptOther "string option"

record apiclient_cls =
  DEFAULT_CONTENT_TYPE :: "string option"
  DEFAULT_ACCEPT_CONTENT_TYPE :: accept

definition APIClient_cls :: apiclient_cls where
  "APIClient_cls =
     \<lparr>DEFAULT_CONTENT_TYPE = Some ''application/json'', DEFAULT_ACCEPT_CONTENT_TYPE = AcceptTrue\<rparr>"

text \<open>
  \<open>_session\<close> refers to a session object by its address; \<open>heap\<close> holds every session
  object created so far, so that an object the client no longer refers to can
  still be inspected.
\<close>

record 'h client = abstract_client +
  priv_session :: "nat option"
  heap :: "'h session list"

definition APIClient_init ::
  "(string \<Rightarrow> exn + url_parts) \<Rightarrow> api_cls \<Rightarrow> string \<Rightarrow> string option \<Rightarrow> verify_cert
     \<Rightarrow> exn + 'h client" where
  "APIClient_init parser cls host real_host_arg verify_cert_arg =
     (case AbstractAPIClient_init parser cls host real_host_arg verify_cert_arg of
        Inl e \<Rightarrow> Inl e
      | Inr a \<Rightarrow> Inr (abstract_client.extend a \<lparr>priv_session = None, heap = []\<rparr>))"

text \<open>The property \<open>session\<close>.\<close>

definition session :: "('h client, nat) meth" where
  "session self =
     (case priv_session self of
        None \<Rightarrow> (Inl (AssertionError ''no active session found''), self)
      | Some a \<Rightarrow> (Inr a, self))"

text \<open>A block of statements on one object stops at the first that raises.\<close>

fun run_steps :: "('h \<Rightarrow> exn option \<times> 'h) list \<Rightarrow> 'h \<Rightarrow> exn option \<times> 'h" where
  "run_steps [] h = (None, h)"
| "run_steps (f # fs) h =
     (case f h of
        (Some e, h') \<Rightarrow> (Some e, h')
      | (None, h') \<Rightarrow> run_steps fs h')"

text \<open>The body of the \<open>try\<close> block of \<open>open_connection\<close>.\<close>

definition setup_steps :: "'h requests \<Rightarrow> apiclient_cls \<Rightarrow> 'h client \<Rightarrow> ('h \<Rightarrow> exn option \<times> 'h) list" where
  "setup_steps lib cls self =
     (let content_type = DEFAULT_CONTENT_TYPE cls;
          accept_content_type = DEFAULT_ACCEPT_CONTENT_TYPE cls
      in
        [session_set_verify lib (verify_cert self),
         session_headers_setitem lib ''Host'' (real_host self)]
        @ (case content_type of
             None \<Rightarrow> []
           | Some ct \<Rightarrow>
               if ct = [] then [] else [session_headers_setitem lib ''Content-Type'' ct])
        @ (case accept_content_type of
             AcceptTrue \<Rightarrow>
               [session_headers_setitem lib ''Accept''
                  (case py_or content_type (Some ''*/*'') of None \<Rightarrow> [] | Some a \<Rightarrow> a)]
           | AcceptOther None \<Rightarrow> []
           | AcceptOther (Some a) \<Rightarrow>
               if a = [] then [] else [session_headers_setitem lib ''Accept'' a])
        @ [session_headers_update lib (headers self)])"

definition open_connection :: "'h requests \<Rightarrow> apiclient_cls \<Rightarrow> ('h client, unit) meth" where
  "open_connection lib cls self =
     (case run_steps (setup_steps lib cls self) (Session lib) of
        (Some e, h) \<Rightarrow>
          (Inl e, self\<lparr>heap := heap self @ [\<lparr>attrs = h, closed = True\<rparr>]\<rparr>)
      | (None, h) \<Rightarrow>
          (Inr (), self\<lparr>priv_session := Some (length (heap self)),
                        heap := heap self @ [\<lparr>attrs = h, closed = False\<rparr>]\<rparr>))"

text \<open>\<open>session.close()\<close> marks the object at an address closed.\<close>

definition session_close :: "nat \<Rightarrow> 'h session list \<Rightarrow> 'h session list" where
  "session_close a hp = (if a < length hp then hp[a := (hp ! a)\<lparr>closed := True\<rparr>] else hp)"

definition close_connection :: "('h client, unit) meth" where
  "close_connection self =
     (case priv_session self of
        None \<Rightarrow> (Inr (), self)
      | Some a \<Rightarrow> (Inr (), self\<lparr>heap := session_close a (heap self), priv_session := None\<rparr>))"

text \<open>
  A caller's sequence of lifecycle calls on one client. Every call of one of the
  four lifecycle methods is logged with whether it returned normally, also the
  calls made inside \<open>__enter__\<close> and \<open>__exit__\<close>. \<open>login\<close> and \<open>logout\<close> are the
  subclass's. The caller may catch an exception and go on, so the sequence runs
  to its end.
\<close>

datatype prim = POpen | PLogin | PLogout | PClose

type_synonym event = "prim \<times> bool"

definition logged :: "prim \<Rightarrow> ('s, unit) meth \<Rightarrow> ('s \<times> event list, unit) meth" where
  "logged p m = (\<lambda>(s, log). case m s of (r, s') \<Rightarrow> (r, (s', log @ [(p, \<not> isl r)])))"

datatype call = CallOpen | CallLogin | CallLogout | CallClose | CallEnter | CallExit

fun exec_call ::
  "'h requests \<Rightarrow> apiclient_cls \<Rightarrow> ('h client, unit) meth \<Rightarrow> ('h client, unit) meth
     \<Rightarrow> call \<Rightarrow> ('h client \<times> event list, unit) meth" where
  "exec_call lib cls login logout CallOpen = logged POpen (open_connection lib cls)"
| "exec_call lib cls login logout CallLogin = logged PLogin login"
| "exec_call lib cls login logout CallLogout = logged PLogout logout"
| "exec_call lib cls login logout CallClose = logged PClose close_connection"
| "exec_call lib cls login logout CallEnter =
     enter (logged POpen (open_connection lib cls)) (logged PLogin login)
       (logged PClose close_connection)"
| "exec_call lib cls login logout CallExit =
     exit (logged PLogout logout) (logged PClose close_connection)"

fun exec_calls ::
  "'h requests \<Rightarrow> apiclient_cls \<Rightarrow> ('h client, unit) meth \<Rightarrow> ('h client, unit) meth
     \<Rightarrow> call list \<Rightarrow> 'h client \<times> event list \<Rightarrow> 'h client \<times> event list" where
  "exec_calls lib cls login logout [] st = st"
| "exec_calls lib cls login logout (c # cs) st =
     exec_calls lib cls login logout cs (snd (exec_call lib cls login logout c st))"

text \<open>
  The client is Open or Authenticated after a log when the log has a successful
  \<open>open_connection\<close> with no \<open>close_connection\<close> after it.
\<close>

fun after_event :: "bool \<Rightarrow> event \<Rightarrow> bool" where
  "after_event b (POpen, ok) = (if ok then True else b)"
| "after_event b (PClose, ok) = False"
| "after_event b (PLogin, ok) = b"
| "after_event b (PLogout, ok) = b"

definition transport_open :: "event list \<Rightarrow> bool" where
  "transport_open log = foldl after_event False log"

text \<open>
  The invariant of the session reference: \<open>_session\<close> is set exactly when the
  client is Open or Authenticated.
\<close>

definition session_inv :: "'h client \<times> event list \<Rightarrow> bool" where
  "session_inv st = ((priv_session (fst st) \<noteq> None) = transport_open (snd st))"

text \<open>
  A small instance of the library for running the client on concrete inputs: the
  session object is its header list, and \<open>headers.update\<close> refuses an empty
  header name, leaving the object as it was.
\<close>

definition list_requests :: "(string \<times> string) list requests" where
  "list_requests =
     \<lparr>Session = [],
      session_set_verify = (\<lambda>v h. (None, h)),
      session_headers_setitem = (\<lambda>k v h. (None, AList.update k v h)),
      session_headers_update =
        (\<lambda>d h. if List.member (map fst d) []
               then (Some (ValueError ''empty header name''), h)
               else (None, foldl (\<lambda>acc kv. AList.update (fst kv) (snd kv) acc) h d))\<rparr>"

definition example_client :: "(string \<times> string) list client" where
  "example_client =
     \<lparr>base_url = ''https://api.example.com/'', real_host = ''api.example.com'',
      verify_cert = VerifyBool True, headers = [], priv_session = None, heap = []\<rparr>"

section \<open>Properties\<close>

subsection \<open>Response classification\<close>

text \<open>
  Claim C1. A response whose status code is one of 200 to 207 makes
  \<open>process_response\<close> return \<open>(True, decoded)\<close>, where \<open>decoded\<close> is what the
  body conversion returns for the raw text (an exception of the conversion
  propagates). Any other status code gives \<open>(False, None)\<close> in tolerant mode and
  otherwise raises an \<open>APICallException\<close> whose \<open>status_code\<close> and
  \<open>response_text\<close> are the response's.
\<close>

theorem process_response_classification:
  "(status_code resp \<in> {200, 201, 202, 203, 204, 205, 206, 207} \<longrightarrow>
      (\<forall>v. convert (resp_text resp) = Inr v \<longrightarrow>
           process_response convert render resp errors_ok = Inr (True, v)) \<and>
      (\<forall>e. convert (resp_text resp) = Inl e \<longrightarrow>
           process_response convert render resp errors_ok = Inl e))
   \<and> (status_code resp \<notin> {200, 201, 202, 203, 204, 205, 206, 207} \<longrightarrow>
      process_response convert render resp True = Inr (False, None) \<and>
      process_response convert render resp False =
        Inl (APICallException (Some (status_code resp)) (Some (resp_text resp))
               (py_or (Some (render (resp_text resp))) (Some (resp_text resp)))) \<and>
      (\<forall>e. process_response convert render resp False = Inl e \<longrightarrow>
           exc_status_code e = Some (status_code resp) \<and>
           exc_response_text e = Some (resp_text resp)))"
proof (cases "status_code resp \<in> {200, 201, 202, 203, 204, 205, 206, 207}")
  case True
  then have ok: "status_code resp \<in> HTTP_STATUS_CODES_SUCCESS"
    by (simp add: HTTP_STATUS_CODES_SUCCESS_def)
  have "convert (resp_text resp) = Inr v
          \<Longrightarrow> process_response convert render resp errors_ok = Inr (True, v)" for v
    using ok by (simp add: process_response_def)
  moreover have "convert (resp_text resp) = Inl e
          \<Longrightarrow> process_response convert render resp errors_ok = Inl e" for e
    using ok by (simp add: process_response_def)
  ultimately show ?thesis using True by blast
next
  case False
  then have no: "status_code resp \<notin> HTTP_STATUS_CODES_SUCCESS"
    by (simp add: HTTP_STATUS_CODES_SUCCESS_def)
  have tolerant: "process_response convert render resp True = Inr (False, None)"
    using no by (simp add: process_response_def)
  have strict: "process_response convert render resp False =
        Inl (APICallException (Some (status_code resp)) (Some (resp_text resp))
               (py_or (Some (render (resp_text resp))) (Some (resp_text resp))))"
    using no by (simp add: process_response_def new_APICallException_def)
  have attrs: "exc_status_code e = Some (status_code resp)
                 \<and> exc_response_text e = Some (resp_text resp)"
    if "process_response convert render resp False = Inl e" for e
    using that strict by auto
  from False tolerant strict attrs show ?thesis by blast
qed

theorem process_response_classification_witness:
  "process_response (\<lambda>t. Inr (Some t)) render_response_error
      \<lparr>status_code = 204, resp_text = ''ok''\<rparr> False = Inr (True, Some ''ok'')
   \<and> process_response (\<lambda>t. Inl (ValueError t)) render_response_error
      \<lparr>status_code = 200, resp_text = ''not json''\<rparr> False = Inl (ValueError ''not json'')
   \<and> process_response (\<lambda>t. Inr (Some t)) render_response_error
      \<lparr>status_code = 404, resp_text = ''not found''\<rparr> True = Inr (False, None)
   \<and> process_response (\<lambda>t. Inr (Some t)) render_response_error
      \<lparr>status_code = 404, resp_text = ''not found''\<rparr> False =
        Inl (APICallException (Some 404) (Some ''not found'') (Some ''not found''))"
  using process_response_classification
          [of "\<lparr>status_code = 204, resp_text = ''ok''\<rparr>" "\<lambda>t. Inr (Some t)"
              render_response_error False]
        process_response_classification
          [of "\<lparr>status_code = 200, resp_text = ''not json''\<rparr>" "\<lambda>t. Inl (ValueError t)"
              render_response_error False]
        process_response_classification
          [of "\<lparr>status_code = 404, resp_text = ''not found''\<rparr>" "\<lambda>t. Inr (Some t)"
              render_response_error]
  by (simp add: render_response_error_def py_or_def truthy_def)

subsection \<open>Joining an endpoint onto the base URL\<close>

lemma lstrip_decomp:
  "\<exists>n. s = replicate n c @ lstrip c s \<and> (lstrip c s = [] \<or> hd (lstrip c s) \<noteq> c)"
proof (induction s)
  case Nil
  show ?case by (simp add: lstrip_def)
next
  case (Cons x xs)
  show ?case
  proof (cases "x = c")
    case True
    from Cons obtain n where n: "xs = replicate n c @ lstrip c xs"
      "lstrip c xs = [] \<or> hd (lstrip c xs) \<noteq> c" by blast
    have eq: "lstrip c (x # xs) = lstrip c xs" using True by (simp add: lstrip_def)
    have "x # xs = replicate (Suc n) c @ lstrip c (x # xs)"
      using True n(1) eq by simp
    with n(2) eq show ?thesis by metis
  next
    case False
    then have "lstrip c (x # xs) = x # xs" by (simp add: lstrip_def)
    then have "x # xs = replicate 0 c @ lstrip c (x # xs) \<and> hd (lstrip c (x # xs)) \<noteq> c"
      using False by simp
    then show ?thesis by blast
  qed
qed

text \<open>
  Claim C10. \<open>join_url\<close> returns the base URL for an endpoint that is \<open>None\<close> or
  empty; otherwise it returns the base URL, one \<open>/\<close>, and the endpoint without
  its leading \<open>/\<close> characters. The client, and so its base URL, is left as it
  was.
\<close>

theorem join_url_spec:
  "join_url None self = (Inr (base_url self), self)
   \<and> join_url (Some []) self = (Inr (base_url self), self)
   \<and> (e \<noteq> [] \<longrightarrow>
        (\<exists>n r. e = replicate n CHR ''/'' @ r \<and> (r = [] \<or> hd r \<noteq> CHR ''/'')
               \<and> join_url (Some e) self = (Inr (base_url self @ ''/'' @ r), self)))
   \<and> base_url (snd (join_url endpoint self)) = base_url self"
proof -
  have a: "join_url None self = (Inr (base_url self), self)"
    by (simp add: join_url_def truthy_def)
  have b: "join_url (Some []) self = (Inr (base_url self), self)"
    by (simp add: join_url_def truthy_def)
  have c: "e \<noteq> [] \<longrightarrow>
        (\<exists>n r. e = replicate n CHR ''/'' @ r \<and> (r = [] \<or> hd r \<noteq> CHR ''/'')
               \<and> join_url (Some e) self = (Inr (base_url self @ ''/'' @ r), self))"
  proof
    assume ne: "e \<noteq> []"
    obtain n where n: "e = replicate n CHR ''/'' @ lstrip CHR ''/'' e"
      "lstrip CHR ''/'' e = [] \<or> hd (lstrip CHR ''/'' e) \<noteq> CHR ''/''"
      using lstrip_decomp[of e "CHR ''/''"] by blast
    have j: "join_url (Some e) self = (Inr (base_url self @ ''/'' @ lstrip CHR ''/'' e), self)"
      using ne by (simp add: join_url_def truthy_def)
    from n j show "\<exists>n r. e = replicate n CHR ''/'' @ r \<and> (r = [] \<or> hd r \<noteq> CHR ''/'')
               \<and> join_url (Some e) self = (Inr (base_url self @ ''/'' @ r), self)"
      by blast
  qed
  have d: "base_url (snd (join_url endpoint self)) = base_url self"
    by (simp add: join_url_def)
  from a b c d show ?thesis by blast
qed

theorem join_url_spec_witness:
  "''//v1/items'' \<noteq> []
   \<and> (\<exists>n r. ''//v1/items'' = replicate n CHR ''/'' @ r \<and> (r = [] \<or> hd r \<noteq> CHR ''/'')
        \<and> join_url (Some ''//v1/items'')
             \<lparr>base_url = ''https://example.com/api'', real_host = ''example.com'',
              verify_cert = VerifyBool True, headers = []\<rparr>
           = (Inr (''https://example.com/api'' @ ''/'' @ r),
              \<lparr>base_url = ''https://example.com/api'', real_host = ''example.com'',
               verify_cert = VerifyBool True, headers = []\<rparr>))
   \<and> fst (join_url (Some ''//v1/items'')
             \<lparr>base_url = ''https://example.com/api'', real_host = ''example.com'',
              verify_cert = VerifyBool True, headers = []\<rparr>)
       = Inr ''https://example.com/api/v1/items''"
  using join_url_spec
          [of "\<lparr>base_url = ''https://example.com/api'', real_host = ''example.com'',
                verify_cert = VerifyBool True, headers = []\<rparr>" "''//v1/items''"]
  by (simp add: join_url_def truthy_def lstrip_def)

subsection \<open>URL resolver\<close>

text \<open>The parser and the port rule on the hosts used below.\<close>

lemma urlparse_example_com: "urlparse ''example.com'' = Inr \<lparr>scheme = [], netloc = []\<rparr>"
  by code_simp

lemma urlparse_bracketed: "urlparse ''[::1]'' = Inr \<lparr>scheme = [], netloc = []\<rparr>"
  by code_simp

lemma urlparse_bracketed_port: "urlparse ''[::1]:8443'' = Inr \<lparr>scheme = [], netloc = []\<rparr>"
  by code_simp

lemma urlparse_empty: "urlparse [] = Inr \<lparr>scheme = [], netloc = []\<rparr>"
  by code_simp

lemma str_int_443: "str_int 443 = ''443''"
  by (simp add: str_int_def digit_char_def)

lemma str_int_8443: "str_int 8443 = ''8443''"
  by (simp add: str_int_def digit_char_def)

lemma append_default_port_example_com:
  "append_default_port (Some (PortInt 443)) ''example.com'' = Inr ''example.com:443''"
  "append_default_port (Some (PortStr ''443'')) ''example.com'' = Inr ''example.com:443''"
  by (simp_all add: append_default_port_def rpartition_def str_int_443)

lemma append_default_port_bracketed:
  "append_default_port (Some (PortInt 8443)) ''[::1]'' = Inr ''[::1]''"
  "append_default_port (Some (PortInt 8443)) ''[::1]:8443'' = Inr ''[::1]:8443:8443''"
  by (simp_all add: append_default_port_def rpartition_def str_int_8443)

lemma append_default_port_unbracketed:
  assumes "port_truthy (Some p)" and "arg \<noteq> []" and "hd arg \<noteq> CHR ''[''"
  shows "append_default_port (Some p) arg
           = Inr (if CHR '':'' \<in> set arg then arg else arg @ '':'' @ format_port p)"
  using assms by (cases arg) (auto simp: append_default_port_def rpartition_def)

lemma append_default_port_empty:
  "port_truthy dp \<Longrightarrow> append_default_port dp [] = Inl IndexError"
  "\<not> port_truthy dp \<Longrightarrow> append_default_port dp arg = Inr arg"
  by (cases dp; auto simp: append_default_port_def)+

text \<open>
  Claim C7, as stated: host \<open>example.com\<close> with default port 443 and no scheme
  resolves to the base URL \<open>https://example.com/\<close>. It does not: the base URL
  is built from the host after the default port was appended.
\<close>

theorem example_com_base_url_counterexample:
  "map_sum id fst
     (parse_api_host_arg urlparse (AbstractAPIClient_cls\<lparr>DEFAULT_API_PORT := Some (PortInt 443)\<rparr>)
        ''example.com'' None)
   \<noteq> Inr ''https://example.com/''"
  by (simp add: parse_api_host_arg_def urlparse_example_com append_default_port_example_com
        AbstractAPIClient_cls_def py_or_def truthy_def lstrip_def)

text \<open>
  Claim C7, amended: host \<open>example.com\<close> with default port 443 (declared as an
  integer or as a string) and no scheme resolves to the base URL
  \<open>https://example.com:443/\<close> and the real host \<open>example.com:443\<close>.
\<close>

theorem example_com_base_url:
  "parse_api_host_arg urlparse (AbstractAPIClient_cls\<lparr>DEFAULT_API_PORT := Some (PortInt 443)\<rparr>)
     ''example.com'' None
   = Inr (''https://example.com:443/'', ''example.com:443'')
   \<and> parse_api_host_arg urlparse (AbstractAPIClient_cls\<lparr>DEFAULT_API_PORT := Some (PortStr ''443'')\<rparr>)
     ''example.com'' None
   = Inr (''https://example.com:443/'', ''example.com:443'')"
  by (simp add: parse_api_host_arg_def urlparse_example_com append_default_port_example_com
        AbstractAPIClient_cls_def py_or_def truthy_def lstrip_def)

text \<open>
  Claim C2: with a default port declared, the resolver appends it exactly when
  the host has none, also for a bracketed IPv6 literal. The branch for bracketed
  hosts tests the part before the last colon for a closing bracket and appends
  the port when it finds one, so its two outcomes are exchanged: \<open>[::1]\<close> with
  default port 8443 stays \<open>[::1]\<close>, and \<open>[::1]:8443\<close> becomes
  \<open>[::1]:8443:8443\<close>.
\<close>

theorem bracketed_host_default_port:
  "parse_api_host_arg urlparse (AbstractAPIClient_cls\<lparr>DEFAULT_API_PORT := Some (PortInt 8443)\<rparr>)
     ''[::1]'' None
   = Inr (''https://[::1]/'', ''[::1]'')
   \<and> parse_api_host_arg urlparse (AbstractAPIClient_cls\<lparr>DEFAULT_API_PORT := Some (PortInt 8443)\<rparr>)
     ''[::1]:8443'' None
   = Inr (''https://[::1]:8443:8443/'', ''[::1]:8443:8443'')"
  by (simp add: parse_api_host_arg_def urlparse_bracketed urlparse_bracketed_port
        append_default_port_bracketed AbstractAPIClient_cls_def py_or_def truthy_def lstrip_def)

text \<open>
  Claim C5, as stated: an empty host makes URL resolution fail with a
  configuration error. With the abstract client's class attributes it returns
  a base URL and an empty real host.
\<close>

theorem empty_host_counterexample:
  "parse_api_host_arg urlparse AbstractAPIClient_cls '''' None = Inr (''https:///'', '''')"
  by (simp add: parse_api_host_arg_def urlparse_empty append_default_port_empty
        AbstractAPIClient_cls_def py_or_def truthy_def lstrip_def)

text \<open>
  Claim C5, amended: the resolver does not validate its host. For an empty host,
  a class without a default port gets the base URL made of the scheme, \<open>://\<close>,
  \<open>/\<close> and the base path without leading slashes, and the real host override (or
  the empty string); a class with a default port gets \<open>IndexError\<close> from
  indexing the empty string. A client that was constructed has no session and
  no session object was created.
\<close>

theorem empty_host_resolution:
  "(\<not> port_truthy (DEFAULT_API_PORT cls) \<longrightarrow>
      parse_api_host_arg urlparse cls [] rh =
        Inr (DEFAULT_API_PROTOCOL cls @ ''://'' @ ''/''
               @ lstrip CHR ''/'' (case DEFAULT_API_BASEPATH cls of None \<Rightarrow> [] | Some b \<Rightarrow> b),
             case rh of None \<Rightarrow> [] | Some r \<Rightarrow> r))
   \<and> (port_truthy (DEFAULT_API_PORT cls) \<longrightarrow>
      parse_api_host_arg urlparse cls [] rh = Inl IndexError)
   \<and> (\<forall>c. APIClient_init urlparse cls [] rh v = Inr (c :: 'h client) \<longrightarrow>
          priv_session c = None \<and> heap c = [])"
proof -
  have a: "\<not> port_truthy (DEFAULT_API_PORT cls) \<longrightarrow>
      parse_api_host_arg urlparse cls [] rh =
        Inr (DEFAULT_API_PROTOCOL cls @ ''://'' @ ''/''
               @ lstrip CHR ''/'' (case DEFAULT_API_BASEPATH cls of None \<Rightarrow> [] | Some b \<Rightarrow> b),
             case rh of None \<Rightarrow> [] | Some r \<Rightarrow> r)"
    by (auto simp: parse_api_host_arg_def urlparse_empty append_default_port_empty
          py_or_def truthy_def split: option.splits)
  have b: "port_truthy (DEFAULT_API_PORT cls) \<longrightarrow>
      parse_api_host_arg urlparse cls [] rh = Inl IndexError"
    by (simp add: parse_api_host_arg_def urlparse_empty append_default_port_empty)
  have c: "\<forall>c. APIClient_init urlparse cls [] rh v = Inr (c :: 'h client) \<longrightarrow>
          priv_session c = None \<and> heap c = []"
    by (auto simp: APIClient_init_def abstract_client.extend_def split: sum.splits)
  from a b c show ?thesis by blast
qed

theorem empty_host_resolution_witness:
  "\<not> port_truthy (DEFAULT_API_PORT AbstractAPIClient_cls)
   \<and> parse_api_host_arg urlparse AbstractAPIClient_cls [] None = Inr (''https:///'', [])
   \<and> port_truthy (DEFAULT_API_PORT (AbstractAPIClient_cls\<lparr>DEFAULT_API_PORT := Some (PortInt 443)\<rparr>))
   \<and> parse_api_host_arg urlparse (AbstractAPIClient_cls\<lparr>DEFAULT_API_PORT := Some (PortInt 443)\<rparr>) [] None
       = Inl IndexError"
  using empty_host_resolution
          [where cls = AbstractAPIClient_cls and rh = None and v = "VerifyBool True" and ?'h = unit]
        empty_host_resolution
          [where cls = "AbstractAPIClient_cls\<lparr>DEFAULT_API_PORT := Some (PortInt 443)\<rparr>"
             and rh = None and v = "VerifyBool True" and ?'h = unit]
  by (simp add: AbstractAPIClient_cls_def lstrip_def)

subsection \<open>Default headers\<close>

text \<open>
  Claim C9. Removing a header that is not set returns normally and changes
  nothing when \<open>ignore_missing\<close> is on, and raises \<open>KeyError\<close> when it is off. A
  header that is set is removed. In every case the other entries keep their
  values and their order.
\<close>

theorem unset_header_spec:
  "(name \<notin> fst ` set (headers self) \<longrightarrow>
      unset_header name True self = (Inr (), self)
      \<and> unset_header name False self = (Inl (KeyError name), self))
   \<and> (name \<in> fst ` set (headers self) \<longrightarrow>
      unset_header name ignore_missing self
        = (Inr (), self\<lparr>headers := filter (\<lambda>p. fst p \<noteq> name) (headers self)\<rparr>))
   \<and> filter (\<lambda>p. fst p \<noteq> name) (headers (snd (unset_header name ignore_missing self)))
       = filter (\<lambda>p. fst p \<noteq> name) (headers self)
   \<and> (\<forall>k. k \<noteq> name \<longrightarrow>
          map_of (headers (snd (unset_header name ignore_missing self))) k = map_of (headers self) k)"
proof -
  have del: "AList.delete name xs = filter (\<lambda>p. fst p \<noteq> name) xs" for xs :: "(string \<times> string) list"
    by (induction xs) auto
  have a: "name \<notin> fst ` set (headers self) \<longrightarrow>
      unset_header name True self = (Inr (), self)
      \<and> unset_header name False self = (Inl (KeyError name), self)"
    by (simp add: unset_header_def)
  have b: "name \<in> fst ` set (headers self) \<longrightarrow>
      unset_header name ignore_missing self
        = (Inr (), self\<lparr>headers := filter (\<lambda>p. fst p \<noteq> name) (headers self)\<rparr>)"
    by (simp add: unset_header_def del)
  have c: "filter (\<lambda>p. fst p \<noteq> name) (headers (snd (unset_header name ignore_missing self)))
       = filter (\<lambda>p. fst p \<noteq> name) (headers self)"
    by (simp add: unset_header_def del)
  have d: "\<forall>k. k \<noteq> name \<longrightarrow>
          map_of (headers (snd (unset_header name ignore_missing self))) k = map_of (headers self) k"
    by (simp add: unset_header_def)
  from a b c d show ?thesis by blast
qed

theorem unset_header_spec_witness:
  "''X-Auth'' \<notin> fst ` set [(''Accept'', ''text/plain'')]
   \<and> unset_header ''X-Auth'' True
        \<lparr>base_url = ''https://h/'', real_host = ''h'', verify_cert = VerifyBool True,
         headers = [(''Accept'', ''text/plain'')]\<rparr>
      = (Inr (), \<lparr>base_url = ''https://h/'', real_host = ''h'', verify_cert = VerifyBool True,
         headers = [(''Accept'', ''text/plain'')]\<rparr>)
   \<and> unset_header ''X-Auth'' False
        \<lparr>base_url = ''https://h/'', real_host = ''h'', verify_cert = VerifyBool True,
         headers = [(''Accept'', ''text/plain'')]\<rparr>
      = (Inl (KeyError ''X-Auth''), \<lparr>base_url = ''https://h/'', real_host = ''h'',
         verify_cert = VerifyBool True, headers = [(''Accept'', ''text/plain'')]\<rparr>)
   \<and> ''Accept'' \<in> fst ` set [(''Accept'', ''text/plain''), (''X-Auth'', ''t'')]
   \<and> unset_header ''Accept'' False
        \<lparr>base_url = ''https://h/'', real_host = ''h'', verify_cert = VerifyBool True,
         headers = [(''Accept'', ''text/plain''), (''X-Auth'', ''t'')]\<rparr>
      = (Inr (), \<lparr>base_url = ''https://h/'', real_host = ''h'', verify_cert = VerifyBool True,
         headers = [(''X-Auth'', ''t'')]\<rparr>)"
  using unset_header_spec
          [of "''X-Auth''" "\<lparr>base_url = ''https://h/'', real_host = ''h'',
                 verify_cert = VerifyBool True, headers = [(''Accept'', ''text/plain'')]\<rparr>" True]
        unset_header_spec
          [of "''Accept''" "\<lparr>base_url = ''https://h/'', real_host = ''h'',
                 verify_cert = VerifyBool True,
                 headers = [(''Accept'', ''text/plain''), (''X-Auth'', ''t'')]\<rparr>" False]
  by simp

subsection \<open>Opening and closing the connection\<close>

lemma close_connection_closed:
  "fst (close_connection self) = Inr ()"
  "priv_session (snd (close_connection self)) = None"
  "priv_session self = Some a \<Longrightarrow> a < length (heap self)
     \<Longrightarrow> closed (heap (snd (close_connection self)) ! a)"
  by (auto simp: close_connection_def session_close_def split: option.splits)

lemma close_connection_pair:
  "close_connection self = (Inr (), snd (close_connection self))"
  by (simp add: close_connection_def split: option.splits)

lemma run_steps_append:
  "run_steps fs h = (None, h') \<Longrightarrow> run_steps (fs @ gs) h = run_steps gs h'"
  by (induction fs arbitrary: h) (auto split: prod.splits option.splits)

lemma run_steps_raise:
  assumes "run_steps fs h = (None, h')" and "f h' = (Some e, h'')"
  shows "run_steps (fs @ f # gs) h = (Some e, h'')"
  using assms by (simp add: run_steps_append)

lemma open_connection_cases:
  "(\<exists>e h. run_steps (setup_steps lib cls self) (Session lib) = (Some e, h)
        \<and> open_connection lib cls self
            = (Inl e, self\<lparr>heap := heap self @ [\<lparr>attrs = h, closed = True\<rparr>]\<rparr>))
   \<or> (\<exists>h. run_steps (setup_steps lib cls self) (Session lib) = (None, h)
        \<and> open_connection lib cls self
            = (Inr (), self\<lparr>priv_session := Some (length (heap self)),
                            heap := heap self @ [\<lparr>attrs = h, closed = False\<rparr>]\<rparr>))"
  by (cases "run_steps (setup_steps lib cls self) (Session lib)")
     (auto simp: open_connection_def split: option.splits)

lemma open_example_client:
  "open_connection list_requests APIClient_cls example_client
     = (Inr (), example_client\<lparr>priv_session := Some 0,
          heap := [\<lparr>attrs = [(''Host'', ''api.example.com''),
                             (''Content-Type'', ''application/json''),
                             (''Accept'', ''application/json'')],
                    closed = False\<rparr>]\<rparr>)"
  by (simp add: open_connection_def setup_steps_def list_requests_def APIClient_cls_def
        example_client_def py_or_def truthy_def)

text \<open>
  Claim C6. When a statement of the \<open>try\<close> block of \<open>open_connection\<close> raises,
  after the statements before it ran normally, the session object just
  constructed is closed, the exception propagates, and \<open>_session\<close> is what it
  was: for a closed client it stays \<open>None\<close>, and reading the \<open>session\<close> property
  still fails.
\<close>

theorem open_connection_failure_tears_down:
  assumes steps: "setup_steps lib cls self = fs @ f # gs"
      and before: "run_steps fs (Session lib) = (None, h')"
      and raised: "f h' = (Some e, h'')"
  shows "open_connection lib cls self
           = (Inl e, self\<lparr>heap := heap self @ [\<lparr>attrs = h'', closed = True\<rparr>]\<rparr>)
         \<and> closed (last (heap (snd (open_connection lib cls self))))
         \<and> priv_session (snd (open_connection lib cls self)) = priv_session self
         \<and> (priv_session self = None
              \<longrightarrow> fst (session (snd (open_connection lib cls self)))
                    = Inl (AssertionError ''no active session found''))"
proof -
  have "run_steps (setup_steps lib cls self) (Session lib) = (Some e, h'')"
    using steps run_steps_raise[of fs "Session lib" h' f e h'' gs] before raised by simp
  then have oc: "open_connection lib cls self
           = (Inl e, self\<lparr>heap := heap self @ [\<lparr>attrs = h'', closed = True\<rparr>]\<rparr>)"
    by (simp add: open_connection_def)
  then show ?thesis by (simp add: session_def)
qed

theorem open_connection_failure_tears_down_witness:
  "open_connection list_requests APIClient_cls (example_client\<lparr>headers := [([], ''x'')]\<rparr>)
     = (Inl (ValueError ''empty header name''),
        example_client\<lparr>headers := [([], ''x'')],
          heap := [\<lparr>attrs = [(''Host'', ''api.example.com''),
                             (''Content-Type'', ''application/json''),
                             (''Accept'', ''application/json'')],
                    closed = True\<rparr>]\<rparr>)
   \<and> priv_session (snd (open_connection list_requests APIClient_cls
                          (example_client\<lparr>headers := [([], ''x'')]\<rparr>))) = None"
proof -
  let ?c = "example_client\<lparr>headers := [([], ''x'')]\<rparr>"
  let ?fs = "[session_set_verify list_requests (verify_cert ?c),
              session_headers_setitem list_requests ''Host'' (real_host ?c),
              session_headers_setitem list_requests ''Content-Type'' ''application/json'',
              session_headers_setitem list_requests ''Accept'' ''application/json'']"
  let ?h = "[(''Host'', ''api.example.com''), (''Content-Type'', ''application/json''),
             (''Accept'', ''application/json'')]"
  have steps: "setup_steps list_requests APIClient_cls ?c
                 = ?fs @ session_headers_update list_requests (headers ?c) # []"
    by (simp add: setup_steps_def APIClient_cls_def py_or_def truthy_def)
  have before: "run_steps ?fs (Session list_requests) = (None, ?h)"
    by (simp add: list_requests_def example_client_def)
  have raised: "session_headers_update list_requests (headers ?c) ?h
                  = (Some (ValueError ''empty header name''), ?h)"
    by (simp add: list_requests_def example_client_def)
  from open_connection_failure_tears_down[OF steps before raised]
  show ?thesis by (simp add: example_client_def)
qed

subsection \<open>Scoped sessions\<close>

text \<open>
  Claim C3. When \<open>login\<close> raises after \<open>open_connection\<close> returned, \<open>__enter__\<close>
  runs \<open>close_connection\<close> on the client as \<open>login\<close> left it and re-raises the
  exception of \<open>login\<close>: the client has no session reference and the session
  object it referred to is closed. A closed client is closed after every failing
  \<open>__enter__\<close>, also when \<open>open_connection\<close> itself raised.
\<close>

theorem enter_failure_closes:
  "(open_conn self = (Inr (), s1) \<and> login s1 = (Inl e, s2) \<longrightarrow>
      enter open_conn login close_connection self = (Inl e, snd (close_connection s2))
      \<and> priv_session (snd (enter open_conn login close_connection self)) = None
      \<and> (\<forall>a. priv_session s2 = Some a \<and> a < length (heap s2) \<longrightarrow>
             closed (heap (snd (enter open_conn login close_connection self)) ! a)))
   \<and> (priv_session self = None
        \<and> isl (fst (enter (open_connection lib cls) login close_connection self)) \<longrightarrow>
      priv_session (snd (enter (open_connection lib cls) login close_connection self)) = None)"
proof -
  have a: "open_conn self = (Inr (), s1) \<and> login s1 = (Inl e, s2) \<longrightarrow>
      enter open_conn login close_connection self = (Inl e, snd (close_connection s2))"
    using close_connection_pair[of s2] by (auto simp: enter_def split: prod.splits sum.splits)
  have b: "priv_session self = None
        \<and> isl (fst (enter (open_connection lib cls) login close_connection self)) \<longrightarrow>
      priv_session (snd (enter (open_connection lib cls) login close_connection self)) = None"
  proof (intro impI, elim conjE)
    assume n: "priv_session self = None"
      and f: "isl (fst (enter (open_connection lib cls) login close_connection self))"
    show "priv_session (snd (enter (open_connection lib cls) login close_connection self)) = None"
    proof (cases "open_connection lib cls self")
      case (Pair r s1)
      show ?thesis
      proof (cases r)
        case (Inl e1)
        with Pair n open_connection_cases[of lib cls self] show ?thesis
          by (auto simp: enter_def)
      next
        case (Inr u)
        obtain r2 s2 where l: "login s1 = (r2, s2)" by (cases "login s1")
        show ?thesis
        proof (cases r2)
          case (Inl e2)
          with Pair Inr l close_connection_pair[of s2] close_connection_closed(2)[of s2]
          show ?thesis by (auto simp: enter_def split: prod.splits sum.splits)
        next
          case (Inr u2)
          with Pair \<open>r = Inr u\<close> l f show ?thesis by (simp add: enter_def)
        qed
      qed
    qed
  qed
  from a b close_connection_closed(2,3) show ?thesis by auto
qed

theorem enter_failure_closes_witness:
  "fst (enter (open_connection list_requests APIClient_cls) (\<lambda>s. (Inl (OtherError ''denied''), s))
          close_connection example_client) = Inl (OtherError ''denied'')
   \<and> priv_session (snd (enter (open_connection list_requests APIClient_cls)
          (\<lambda>s. (Inl (OtherError ''denied''), s)) close_connection example_client)) = None
   \<and> closed (heap (snd (enter (open_connection list_requests APIClient_cls)
          (\<lambda>s. (Inl (OtherError ''denied''), s)) close_connection example_client)) ! 0)
   \<and> priv_session example_client = None"
proof -
  let ?oc = "open_connection list_requests APIClient_cls"
  let ?login = "\<lambda>s :: (string \<times> string) list client. (Inl (OtherError ''denied'') :: exn + unit, s)"
  let ?s1 = "snd (?oc example_client)"
  have op: "?oc example_client = (Inr (), ?s1)" by (simp add: open_example_client)
  have lg: "?login ?s1 = (Inl (OtherError ''denied''), ?s1)" by simp
  have ps: "priv_session ?s1 = Some 0 \<and> 0 < length (heap ?s1)"
    by (simp add: open_example_client)
  have closed0: "priv_session example_client = None" by (simp add: example_client_def)
  note e = enter_failure_closes[where open_conn = ?oc and self = example_client and ?s1.0 = ?s1
         and login = ?login and e = "OtherError ''denied''" and ?s2.0 = ?s1
         and lib = list_requests and cls = APIClient_cls]
  from e op lg ps closed0 show ?thesis by (metis fst_conv)
qed

text \<open>
  Claim C4. \<open>__exit__\<close> calls \<open>logout\<close> and then \<open>close_connection\<close>, whatever
  \<open>logout\<close> did: the outcome is that of \<open>logout\<close>, the client has no session
  reference afterwards, and the session object it referred to is closed.
\<close>

theorem exit_always_closes:
  "exit logout close_connection self
     = (fst (logout self), snd (close_connection (snd (logout self))))
   \<and> priv_session (snd (exit logout close_connection self)) = None
   \<and> (\<forall>a. priv_session (snd (logout self)) = Some a \<and> a < length (heap (snd (logout self)))
          \<longrightarrow> closed (heap (snd (exit logout close_connection self)) ! a))
   \<and> fst (session (snd (exit logout close_connection self)))
        = Inl (AssertionError ''no active session found'')"
proof -
  have a: "exit logout close_connection self
     = (fst (logout self), snd (close_connection (snd (logout self))))"
    using close_connection_pair[of "snd (logout self)"]
    by (auto simp: exit_def split: prod.splits sum.splits)
  with close_connection_closed(2,3) show ?thesis by (auto simp: session_def)
qed

theorem exit_always_closes_witness:
  "fst (exit (\<lambda>s. (Inl (OtherError ''logout failed''), s)) close_connection
          (snd (open_connection list_requests APIClient_cls example_client)))
     = Inl (OtherError ''logout failed'')
   \<and> priv_session (snd (exit (\<lambda>s. (Inl (OtherError ''logout failed''), s)) close_connection
          (snd (open_connection list_requests APIClient_cls example_client)))) = None
   \<and> closed (heap (snd (exit (\<lambda>s. (Inl (OtherError ''logout failed''), s)) close_connection
          (snd (open_connection list_requests APIClient_cls example_client)))) ! 0)"
proof -
  let ?s1 = "snd (open_connection list_requests APIClient_cls example_client)"
  let ?logout = "\<lambda>s :: (string \<times> string) list client. (Inl (OtherError ''logout failed'') :: exn + unit, s)"
  have ps: "priv_session (snd (?logout ?s1)) = Some 0 \<and> 0 < length (heap (snd (?logout ?s1)))"
    by (simp add: open_example_client)
  from exit_always_closes[of ?logout ?s1] ps show ?thesis by (metis fst_conv)
qed

subsection \<open>The session reference\<close>

lemma transport_open_snoc:
  "transport_open (log @ [ev]) = after_event (transport_open log) ev"
  by (simp add: transport_open_def)

lemma logged_open_inv:
  "session_inv st \<Longrightarrow> session_inv (snd (logged POpen (open_connection lib cls) st))"
  using open_connection_cases[of lib cls "fst st"]
  by (cases st) (auto simp: session_inv_def logged_def transport_open_snoc)

lemma logged_close_inv:
  "session_inv (snd (logged PClose close_connection st))"
  using close_connection_closed(2)[of "fst st"]
  by (cases st) (auto simp: session_inv_def logged_def transport_open_snoc split: prod.splits)

lemma logged_frame_inv:
  assumes "\<forall>s. priv_session (snd (m s)) = priv_session s" and "p = PLogin \<or> p = PLogout"
    and "session_inv st"
  shows "session_inv (snd (logged p m st))"
proof (cases st)
  case (Pair s log)
  obtain r s' where m: "m s = (r, s')" by (cases "m s")
  with assms(1) have "priv_session s' = priv_session s" by (metis snd_conv)
  with assms(2,3) Pair m show ?thesis
    by (auto simp: session_inv_def logged_def transport_open_snoc)
qed

lemma enter_preserves:
  assumes "\<And>st. P st \<Longrightarrow> P (snd (a st))" "\<And>st. P st \<Longrightarrow> P (snd (b st))"
    "\<And>st. P st \<Longrightarrow> P (snd (c st))" "P st"
  shows "P (snd (enter a b c st))"
proof -
  obtain r1 s1 where a: "a st = (r1, s1)" by (cases "a st")
  obtain r2 s2 where b: "b s1 = (r2, s2)" by (cases "b s1")
  obtain r3 s3 where c: "c s2 = (r3, s3)" by (cases "c s2")
  have p1: "P s1" using assms(1)[OF assms(4)] a by simp
  have p2: "P s2" using assms(2)[OF p1] b by simp
  have p3: "P s3" using assms(3)[OF p2] c by simp
  show ?thesis using a b c p1 p2 p3
    by (auto simp: enter_def split: sum.splits)
qed

lemma exit_preserves:
  assumes "\<And>st. P st \<Longrightarrow> P (snd (a st))" "\<And>st. P st \<Longrightarrow> P (snd (c st))" "P st"
  shows "P (snd (exit a c st))"
proof -
  obtain r1 s1 where a: "a st = (r1, s1)" by (cases "a st")
  obtain r3 s3 where c: "c s1 = (r3, s3)" by (cases "c s1")
  have p1: "P s1" using assms(1)[OF assms(3)] a by simp
  have p3: "P s3" using assms(2)[OF p1] c by simp
  show ?thesis using a c p3 by (auto simp: exit_def split: sum.splits)
qed

lemma exec_call_inv:
  assumes li: "\<forall>s. priv_session (snd (login s)) = priv_session s"
    and lo: "\<forall>s. priv_session (snd (logout s)) = priv_session s"
    and inv: "session_inv st"
  shows "session_inv (snd (exec_call lib cls login logout c st))"
proof (cases c)
  case CallOpen
  with inv show ?thesis by (simp add: logged_open_inv)
next
  case CallLogin
  with inv li show ?thesis by (simp add: logged_frame_inv)
next
  case CallLogout
  with inv lo show ?thesis by (simp add: logged_frame_inv)
next
  case CallClose
  then show ?thesis by (simp add: logged_close_inv)
next
  case CallEnter
  have "session_inv (snd (enter (logged POpen (open_connection lib cls)) (logged PLogin login)
          (logged PClose close_connection) st))"
    by (rule enter_preserves[where P = session_inv])
       (simp_all add: logged_open_inv logged_close_inv logged_frame_inv li inv)
  with CallEnter show ?thesis by simp
next
  case CallExit
  have "session_inv (snd (exit (logged PLogout logout) (logged PClose close_connection) st))"
    by (rule exit_preserves[where P = session_inv])
       (simp_all add: logged_close_inv logged_frame_inv lo inv)
  with CallExit show ?thesis by simp
qed

lemma exec_calls_inv:
  assumes li: "\<forall>s. priv_session (snd (login s)) = priv_session s"
    and lo: "\<forall>s. priv_session (snd (logout s)) = priv_session s"
  shows "session_inv st \<Longrightarrow> session_inv (exec_calls lib cls login logout calls st)"
proof (induction calls arbitrary: st)
  case Nil
  then show ?case by simp
next
  case (Cons c cs)
  from Cons.prems have "session_inv (snd (exec_call lib cls login logout c st))"
    by (rule exec_call_inv[OF li lo])
  then show ?case using Cons.IH by simp
qed

text \<open>
  Claim C8. Along every sequence of lifecycle calls on a client that starts
  closed, \<open>_session\<close> is set exactly when a successful \<open>open_connection\<close> has no
  \<open>close_connection\<close> after it, provided the subclass's \<open>login\<close> and \<open>logout\<close> do
  not assign \<open>_session\<close>; every single call preserves this. The \<open>session\<close>
  property raises \<open>AssertionError\<close> while \<open>_session\<close> is \<open>None\<close> and returns the
  session otherwise.
\<close>

theorem session_reference_invariant:
  assumes li: "\<forall>s. priv_session (snd (login s)) = priv_session s"
    and lo: "\<forall>s. priv_session (snd (logout s)) = priv_session s"
    and fresh: "priv_session c0 = None"
  shows "(priv_session (fst (exec_calls lib cls login logout calls (c0, []))) \<noteq> None)
           = transport_open (snd (exec_calls lib cls login logout calls (c0, [])))
         \<and> (\<forall>st c. session_inv st \<longrightarrow> session_inv (snd (exec_call lib cls login logout c st)))
         \<and> (\<forall>c. priv_session c = None \<longrightarrow>
                session c = (Inl (AssertionError ''no active session found''), c))
         \<and> (\<forall>c a. priv_session c = Some a \<longrightarrow> session c = (Inr a, c))"
proof -
  have "session_inv (c0, [])"
    using fresh by (simp add: session_inv_def transport_open_def)
  then have "session_inv (exec_calls lib cls login logout calls (c0, []))"
    by (rule exec_calls_inv[OF li lo])
  then have a: "(priv_session (fst (exec_calls lib cls login logout calls (c0, []))) \<noteq> None)
           = transport_open (snd (exec_calls lib cls login logout calls (c0, [])))"
    by (simp add: session_inv_def)
  have b: "\<forall>st c. session_inv st \<longrightarrow> session_inv (snd (exec_call lib cls login logout c st))"
    using exec_call_inv[OF li lo] by blast
  have c: "\<forall>c. priv_session c = None \<longrightarrow>
                session c = (Inl (AssertionError ''no active session found''), c)"
    by (simp add: session_def)
  have d: "\<forall>c a. priv_session c = Some a \<longrightarrow> session c = (Inr a, c)"
    by (simp add: session_def)
  from a b c d show ?thesis by blast
qed

theorem session_reference_invariant_witness:
  "(\<forall>s :: (string \<times> string) list client.
       priv_session (snd ((\<lambda>s. (Inr (), s)) s :: (exn + unit) \<times> (string \<times> string) list client)) = priv_session s)
   \<and> priv_session example_client = None
   \<and> priv_session (fst (exec_calls list_requests APIClient_cls (\<lambda>s. (Inr (), s)) (\<lambda>s. (Inr (), s))
         [CallOpen, CallLogin] (example_client, []))) = Some 0
   \<and> transport_open (snd (exec_calls list_requests APIClient_cls (\<lambda>s. (Inr (), s)) (\<lambda>s. (Inr (), s))
         [CallOpen, CallLogin] (example_client, [])))
   \<and> priv_session (fst (exec_calls list_requests APIClient_cls (\<lambda>s. (Inr (), s)) (\<lambda>s. (Inr (), s))
         [CallEnter, CallExit] (example_client, []))) = None
   \<and> \<not> transport_open (snd (exec_calls list_requests APIClient_cls (\<lambda>s. (Inr (), s)) (\<lambda>s. (Inr (), s))
         [CallEnter, CallExit] (example_client, [])))
   \<and> session example_client = (Inl (AssertionError ''no active session found''), example_client)"
proof -
  let ?ok = "\<lambda>s :: (string \<times> string) list client. (Inr () :: exn + unit, s)"
  have fr: "\<forall>s. priv_session (snd (?ok s)) = priv_session s" by simp
  have fresh: "priv_session example_client = None" by (simp add: example_client_def)
  have run1: "priv_session (fst (exec_calls list_requests APIClient_cls ?ok ?ok
         [CallOpen, CallLogin] (example_client, []))) = Some 0"
    by (simp add: logged_def open_example_client)
  have run2: "priv_session (fst (exec_calls list_requests APIClient_cls ?ok ?ok
         [CallEnter, CallExit] (example_client, []))) = None"
    by (simp add: logged_def open_example_client enter_def exit_def close_connection_def)
  note i1 = session_reference_invariant
                [OF fr fr fresh, of list_requests APIClient_cls "[CallOpen, CallLogin]"]
  note i2 = session_reference_invariant
                [OF fr fr fresh, of list_requests APIClient_cls "[CallEnter, CallExit]"]
  have t1: "transport_open (snd (exec_calls list_requests APIClient_cls ?ok ?ok
         [CallOpen, CallLogin] (example_client, [])))"
    using conjunct1[OF i1] run1 by (simp del: exec_calls.simps)
  have t2: "\<not> transport_open (snd (exec_calls list_requests APIClient_cls ?ok ?ok
         [CallEnter, CallExit] (example_client, [])))"
    using conjunct1[OF i2] run2 by (simp del: exec_calls.simps)
  have s: "session example_client
             = (Inl (AssertionError ''no active session found''), example_client)"
    using i1 fresh by blast
  from fresh run1 t1 run2 t2 s show ?thesis by (simp del: exec_calls.simps)
qed

end
